theory Spec2Isabelle
  imports Main "HOL-Library.Sublist" "HOL-Library.AList"
begin

section \<open>Paper search and PDF download pipeline\<close>

text \<open>
  A shallow embedding of \<^verbatim>\<open>src/paper_search.py\<close> and \<^verbatim>\<open>src/pdf_downloader.py\<close>.
  A Python \<^verbatim>\<open>str\<close> is a \<^typ>\<open>string\<close>; one \<^typ>\<open>char\<close> stands for one code point below 256.
  Python integers are \<^typ>\<open>int\<close>. A dictionary key that may be missing is an \<open>option\<close> field.
  Every exception of the source is a value of \<open>exn\<close>, and a function that may raise returns
  \<open>exn + 'a\<close>; the remote services, the clock and the download directory are an explicit
  environment. Logging and the pacing delays (\<^verbatim>\<open>time.sleep\<close>) have no effect on any value
  and are left out.
\<close>

subsection \<open>Character classes and string helpers\<close>

text \<open>\<^verbatim>\<open>str.isspace\<close>, which is also the class \<^verbatim>\<open>\s\<close> of \<^verbatim>\<open>re\<close> on a \<^verbatim>\<open>str\<close> pattern.\<close>

definition is_space :: "char \<Rightarrow> bool" where
  "is_space c =
     (let n = (of_char c :: nat)
      in (9 \<le> n \<and> n \<le> 13) \<or> (28 \<le> n \<and> n \<le> 32) \<or> n = 133 \<or> n = 160)"

text \<open>The class \<^verbatim>\<open>\w\<close>: alphanumeric code points and the underscore.\<close>

definition is_word :: "char \<Rightarrow> bool" where
  "is_word c =
     (let n = (of_char c :: nat)
      in (48 \<le> n \<and> n \<le> 57) \<or> (65 \<le> n \<and> n \<le> 90) \<or> n = 95 \<or> (97 \<le> n \<and> n \<le> 122)
         \<or> n = 170 \<or> n = 178 \<or> n = 179 \<or> n = 181 \<or> n = 185 \<or> n = 186
         \<or> (188 \<le> n \<and> n \<le> 190) \<or> (192 \<le> n \<and> n \<le> 214) \<or> (216 \<le> n \<and> n \<le> 246)
         \<or> 248 \<le> n)"

text \<open>\<^verbatim>\<open>str.lower\<close>, one code point at a time.\<close>

definition lower_char :: "char \<Rightarrow> char" where
  "lower_char c =
     (let n = (of_char c :: nat)
      in if (65 \<le> n \<and> n \<le> 90) \<or> (192 \<le> n \<and> n \<le> 222 \<and> n \<noteq> 215)
         then char_of (n + 32) else c)"

definition lower :: "string \<Rightarrow> string" where
  "lower s = map lower_char s"

text \<open>\<^verbatim>\<open>s.strip()\<close> and \<^verbatim>\<open>s.rstrip(chars)\<close>.\<close>

definition strip :: "string \<Rightarrow> string" where
  "strip s = rev (dropWhile is_space (rev (dropWhile is_space s)))"

definition rstrip_chars :: "string \<Rightarrow> string \<Rightarrow> string" where
  "rstrip_chars chars s = rev (dropWhile (\<lambda>c. c \<in> set chars) (rev s))"

text \<open>
  \<^verbatim>\<open>re.sub(r'\s+', rep, s)\<close>: every maximal run of whitespace becomes \<open>rep\<close>. The flag
  says that the previous character was whitespace, so the run is already replaced.
\<close>

fun sub_ws_runs :: "string \<Rightarrow> bool \<Rightarrow> string \<Rightarrow> string" where
  "sub_ws_runs rep prev [] = []"
| "sub_ws_runs rep prev (c # cs) =
     (if is_space c
      then (if prev then sub_ws_runs rep True cs else rep @ sub_ws_runs rep True cs)
      else c # sub_ws_runs rep False cs)"

text \<open>\<^verbatim>\<open>s.split()\<close>: the maximal runs of non-whitespace, \<open>w\<close> being the word read so far.\<close>

fun split_ws :: "string \<Rightarrow> string \<Rightarrow> string list" where
  "split_ws w [] = (if w = [] then [] else [w])"
| "split_ws w (c # cs) =
     (if is_space c
      then (if w = [] then split_ws [] cs else w # split_ws [] cs)
      else split_ws (w @ [c]) cs)"

text \<open>\<^verbatim>\<open>sep.join(ws)\<close>.\<close>

fun join :: "string \<Rightarrow> string list \<Rightarrow> string" where
  "join sep [] = []"
| "join sep [w] = w"
| "join sep (w # ws) = w @ sep @ join sep ws"

text \<open>\<^verbatim>\<open>s.endswith(suf)\<close> and \<^verbatim>\<open>sub in s\<close>.\<close>

definition ends_with :: "string \<Rightarrow> string \<Rightarrow> bool" where
  "ends_with suf s = (length suf \<le> length s \<and> drop (length s - length suf) s = suf)"

fun contains :: "string \<Rightarrow> string \<Rightarrow> bool" where
  "contains sub [] = (sub = [])"
| "contains sub (c # cs) = (take (length sub) (c # cs) = sub \<or> contains sub cs)"

text \<open>
  A Python slice \<^verbatim>\<open>xs[:n]\<close>: a negative \<open>n\<close> counts from the end of the list.
\<close>

definition slice_to :: "int \<Rightarrow> 'a list \<Rightarrow> 'a list" where
  "slice_to n xs = (if 0 \<le> n then take (nat n) xs else take (nat (int (length xs) + n)) xs)"

text \<open>\<^verbatim>\<open>str(n)\<close> for a natural number.\<close>

function str_nat :: "nat \<Rightarrow> string" where
  "str_nat n =
     (if n < 10 then [char_of (48 + n)] else str_nat (n div 10) @ [char_of (48 + n mod 10)])"
  by pat_completeness auto
termination
  by (relation "measure id") auto

text \<open>
  \<^verbatim>\<open>int(s)\<close> on a string: optional surrounding whitespace, an optional sign, then decimal
  digits that single underscores may separate. \<open>None\<close> is the \<^verbatim>\<open>ValueError\<close>.
  The whitespace that \<^verbatim>\<open>int\<close> skips is narrower than \<^verbatim>\<open>str.isspace\<close>: the ASCII
  characters 9 to 13 and 32, and the spaces beyond ASCII; the separators 28 to 31 are
  not skipped and make the string invalid.
\<close>

definition is_int_space :: "char \<Rightarrow> bool" where
  "is_int_space c =
     (let n = (of_char c :: nat) in (9 \<le> n \<and> n \<le> 13) \<or> n = 32 \<or> n = 133 \<or> n = 160)"

definition is_digit :: "char \<Rightarrow> bool" where
  "is_digit c = (let n = (of_char c :: nat) in 48 \<le> n \<and> n \<le> 57)"

fun digits_ok :: "bool \<Rightarrow> string \<Rightarrow> bool" where
  "digits_ok prev_digit [] = prev_digit"
| "digits_ok prev_digit (c # cs) =
     (if is_digit c then digits_ok True cs
      else if c = CHR ''_'' \<and> prev_digit then digits_ok False cs
      else False)"

definition digits_value :: "string \<Rightarrow> int" where
  "digits_value s = foldl (\<lambda>acc c. 10 * acc + (int (of_char c) - 48)) 0 (filter is_digit s)"

definition py_int :: "string \<Rightarrow> int option" where
  "py_int s =
     (let t = rev (dropWhile is_int_space (rev (dropWhile is_int_space s)));
          neg = (t \<noteq> [] \<and> hd t = CHR ''-'');
          body = (if t \<noteq> [] \<and> (hd t = CHR ''-'' \<or> hd t = CHR ''+'') then tl t else t)
      in if digits_ok False body
         then Some (if neg then - digits_value body else digits_value body)
         else None)"

subsection \<open>Papers and text normalisation\<close>

datatype source = ArXiv | SemanticScholar

text \<open>
  A paper is a dictionary; \<open>None\<close> in \<open>title\<close>, \<open>year\<close> or \<open>pdf_url\<close> is a missing key, which
  the readers of the dictionary replace by their own defaults (\<^verbatim>\<open>paper.get(key, default)\<close>).
\<close>

record paper =
  title :: "string option"
  authors :: "string list"
  year :: "int option"
  abstract :: string
  pdf_url :: "string option"
  source :: source

text \<open>\<^verbatim>\<open>PaperSearcher._clean_text\<close>; \<open>None\<close> is Python's \<^verbatim>\<open>None\<close>.\<close>

definition clean_keep :: "char \<Rightarrow> bool" where
  "clean_keep c = (is_word c \<or> is_space c \<or> c \<in> set ''-.,()[]'')"

definition clean_text :: "string option \<Rightarrow> string" where
  "clean_text text =
     (case text of
        None \<Rightarrow> []
      | Some t \<Rightarrow> if t = [] then [] else filter clean_keep (sub_ws_runs '' '' False (strip t)))"

subsection \<open>Deduplication by simplified title\<close>

text \<open>
  The key of \<^verbatim>\<open>MultiSourceSearcher._remove_duplicates\<close>: the lower-cased title without
  the characters outside \<^verbatim>\<open>[\w\s]\<close>, split at whitespace and joined by single spaces.
\<close>

definition simple_title :: "paper \<Rightarrow> string" where
  "simple_title p =
     join '' '' (split_ws []
       (filter (\<lambda>c. is_word c \<or> is_space c) (lower (case title p of None \<Rightarrow> [] | Some t \<Rightarrow> t))))"

text \<open>
  The loop of \<^verbatim>\<open>_remove_duplicates\<close> over the remaining papers, with the two accumulators
  \<^verbatim>\<open>unique_papers\<close> and \<^verbatim>\<open>seen_titles\<close>.
\<close>

fun remove_duplicates_loop :: "paper list \<Rightarrow> string set \<Rightarrow> paper list \<Rightarrow> paper list" where
  "remove_duplicates_loop unique_papers seen_titles [] = unique_papers"
| "remove_duplicates_loop unique_papers seen_titles (p # ps) =
     (if simple_title p \<notin> seen_titles
      then remove_duplicates_loop (unique_papers @ [p]) (insert (simple_title p) seen_titles) ps
      else remove_duplicates_loop unique_papers seen_titles ps)"

definition remove_duplicates :: "paper list \<Rightarrow> paper list" where
  "remove_duplicates papers = remove_duplicates_loop [] {} papers"

text \<open>
  The normalisation as the specification words it: lower-case, delete what is neither a word
  character nor whitespace, replace every run of whitespace by one space.
\<close>

definition spec_normalized_title :: "string \<Rightarrow> string" where
  "spec_normalized_title t =
     sub_ws_runs '' '' False (filter (\<lambda>c. is_word c \<or> is_space c) (lower t))"

text \<open>The papers of a list that are the first of their key, in the order of the list.\<close>

definition first_of_key :: "('a \<Rightarrow> 'k) \<Rightarrow> 'a list \<Rightarrow> 'a list" where
  "first_of_key key xs =
     map (\<lambda>i. xs ! i) (filter (\<lambda>i. key (xs ! i) \<notin> key ` set (take i xs)) [0..<length xs])"

text \<open>
  The same selection by one pass that carries the set of keys seen so far; it links the
  loop to \<open>first_of_key\<close>.
\<close>

fun firsts :: "('a \<Rightarrow> 'k) \<Rightarrow> 'k set \<Rightarrow> 'a list \<Rightarrow> 'a list" where
  "firsts key seen [] = []"
| "firsts key seen (x # xs) =
     (if key x \<in> seen then firsts key seen xs else x # firsts key (insert (key x) seen) xs)"

text \<open>\<^verbatim>\<open>s.rstrip()\<close>, the right half of \<open>strip\<close>.\<close>

definition rstrip_ws :: "string \<Rightarrow> string" where
  "rstrip_ws s = rev (dropWhile is_space (rev s))"

text \<open>The key that the specification's wording gives a paper.\<close>

definition spec_key :: "paper \<Rightarrow> string" where
  "spec_key p = spec_normalized_title (case title p of None \<Rightarrow> [] | Some t \<Rightarrow> t)"

subsection \<open>Exceptions and provider responses\<close>

text \<open>
  The three classes that the handlers of the source tell apart, each with \<^verbatim>\<open>str(e)\<close>:
  \<^verbatim>\<open>requests.exceptions.Timeout\<close>, any other \<^verbatim>\<open>RequestException\<close>, any other
  \<^verbatim>\<open>Exception\<close>.
\<close>

datatype exn = Timeout string | RequestException string | Exception string

text \<open>
  The answer to a provider query: \<open>status_error\<close> is the message of the \<^verbatim>\<open>HTTPError\<close>
  that \<^verbatim>\<open>raise_for_status\<close> raises, \<open>parsed\<close> the outcome of decoding the body into
  its entries.
\<close>

record 'e feed =
  status_error :: "string option"
  parsed :: "exn + 'e list"

text \<open>
  One \<^verbatim>\<open>entry\<close> element of the Atom feed: the text of its \<^verbatim>\<open>title\<close>,
  \<^verbatim>\<open>summary\<close>, \<^verbatim>\<open>published\<close> and \<^verbatim>\<open>id\<close> children when present, the
  \<^verbatim>\<open>name\<close> of each \<^verbatim>\<open>author\<close>, the \<^verbatim>\<open>type\<close> and \<^verbatim>\<open>href\<close> of each \<^verbatim>\<open>link\<close>.
\<close>

record arxiv_entry =
  entry_title :: "string option"
  entry_summary :: "string option"
  entry_authors :: "string option list"
  entry_published :: "string option"
  entry_links :: "(string option \<times> string option) list"
  entry_id :: "string option"

text \<open>
  One item of the \<^verbatim>\<open>data\<close> array of Semantic Scholar. A \<^verbatim>\<open>year\<close> may be missing
  (the code then takes 2024) or \<^verbatim>\<open>null\<close>; \<open>item_open_access\<close> is the \<^verbatim>\<open>url\<close> of
  \<^verbatim>\<open>openAccessPdf\<close> when that object is there.
\<close>

datatype json_year = YearMissing | YearNull | YearInt int

record s2_item =
  item_title :: "string option"
  item_abstract :: "string option"
  item_year :: json_year
  item_authors :: "string option list"
  item_open_access :: "string option option"

text \<open>
  The two remote services: the answer of arXiv to \<^verbatim>\<open>search_query\<close> and
  \<^verbatim>\<open>max_results\<close>, and of Semantic Scholar to \<^verbatim>\<open>query\<close>, \<^verbatim>\<open>limit\<close> and the
  lower bound of \<^verbatim>\<open>year\<close>. \<open>Inl\<close> is an exception of \<^verbatim>\<open>session.get\<close>.
\<close>

record providers =
  arxiv_api :: "string \<Rightarrow> int \<Rightarrow> exn + arxiv_entry feed"
  s2_api :: "string \<Rightarrow> int \<Rightarrow> int \<Rightarrow> exn + s2_item feed"

record searcher =
  max_papers :: int
  min_year :: int

subsection \<open>ArxivSearcher.search_papers\<close>

text \<open>The \<^verbatim>\<open>href\<close> of the first link of type \<^verbatim>\<open>application/pdf\<close>.\<close>

definition pdf_link :: "(string option \<times> string option) list \<Rightarrow> string option" where
  "pdf_link links =
     (case filter (\<lambda>l. fst l = Some ''application/pdf'') links of
        [] \<Rightarrow> None
      | l # _ \<Rightarrow> snd l)"

text \<open>\<^verbatim>\<open>text.split('/')[-1]\<close>.\<close>

definition last_segment :: "string \<Rightarrow> string" where
  "last_segment s = rev (takeWhile (\<lambda>c. c \<noteq> CHR ''/'') (rev s))"

text \<open>\<^verbatim>\<open>if x:\<close> on an optional string.\<close>

definition truthy :: "string option \<Rightarrow> bool" where
  "truthy x = (case x of None \<Rightarrow> False | Some s \<Rightarrow> s \<noteq> [])"

text \<open>
  The body of the loop over the entries: \<open>None\<close> when the entry is skipped. No operation
  of the body raises on an entry of this shape (\<^verbatim>\<open>int\<close> has its own handler).
\<close>

definition arxiv_entry_paper :: "int \<Rightarrow> arxiv_entry \<Rightarrow> paper option" where
  "arxiv_entry_paper min_y e =
     (let t = clean_text (Some (case entry_title e of None \<Rightarrow> [] | Some x \<Rightarrow> x));
          summary = clean_text (Some (case entry_summary e of None \<Rightarrow> [] | Some x \<Rightarrow> x));
          auths = map (\<lambda>n. clean_text n) (filter (\<lambda>n. n \<noteq> None) (entry_authors e));
          y = (case entry_published e of
                 None \<Rightarrow> 2024
               | Some d \<Rightarrow> (case py_int (take 4 d) of None \<Rightarrow> 2024 | Some v \<Rightarrow> v))
      in if y < min_y then None
         else
           let link = pdf_link (entry_links e);
               url = (if \<not> truthy link
                      then (case entry_id e of
                              None \<Rightarrow> link
                            | Some i \<Rightarrow> Some (''https://arxiv.org/pdf/'' @ last_segment i @ ''.pdf''))
                      else link)
           in if t \<noteq> [] \<and> truthy url
              then Some \<lparr>title = Some t, authors = auths, year = Some y, abstract = summary,
                         pdf_url = url, source = ArXiv\<rparr>
              else None)"

definition arxiv_request :: "providers \<Rightarrow> searcher \<Rightarrow> string \<Rightarrow> exn + paper list" where
  "arxiv_request env cfg query =
     (case arxiv_api env (''all:'' @ query) (max_papers cfg) of
        Inl e \<Rightarrow> Inl e
      | Inr response \<Rightarrow>
          (case status_error response of
             Some m \<Rightarrow> Inl (RequestException m)
           | None \<Rightarrow>
               (case parsed response of
                  Inl e \<Rightarrow> Inl e
                | Inr entries \<Rightarrow>
                    Inr (List.map_filter (arxiv_entry_paper (min_year cfg))
                           (slice_to (max_papers cfg) entries)))))"

text \<open>
  The outer \<^verbatim>\<open>try\<close>: an exception before the loop is logged and the empty \<^verbatim>\<open>papers\<close>
  is returned.
\<close>

definition arxiv_search_papers :: "providers \<Rightarrow> searcher \<Rightarrow> string \<Rightarrow> exn + paper list" where
  "arxiv_search_papers env cfg query =
     (case arxiv_request env cfg query of Inl e \<Rightarrow> Inr [] | Inr papers \<Rightarrow> Inr papers)"

subsection \<open>SemanticScholarSearcher.search_papers\<close>

text \<open>
  The body of the loop over the items; \<open>Inl\<close> is the \<^verbatim>\<open>TypeError\<close> of comparing a
  \<^verbatim>\<open>null\<close> year with \<^verbatim>\<open>min_year\<close>, which \<^verbatim>\<open>and\<close> evaluates only when the title
  and the URL are there.
\<close>

definition s2_item_paper :: "int \<Rightarrow> s2_item \<Rightarrow> exn + paper option" where
  "s2_item_paper min_y d =
     (let t = clean_text (item_title d);
          abs = clean_text (item_abstract d);
          auths = map (\<lambda>n. clean_text n) (filter truthy (item_authors d));
          url = (case item_open_access d of
                   None \<Rightarrow> None
                 | Some u \<Rightarrow> if truthy u then u else None)
      in if t = [] \<or> \<not> truthy url then Inr None
         else
           (case item_year d of
              YearNull \<Rightarrow>
                Inl (Exception ''TypeError: >= not supported between NoneType and int'')
            | YearMissing \<Rightarrow>
                (if 2024 \<ge> min_y
                 then Inr (Some \<lparr>title = Some t, authors = auths, year = Some 2024, abstract = abs,
                                 pdf_url = url, source = SemanticScholar\<rparr>)
                 else Inr None)
            | YearInt y \<Rightarrow>
                (if y \<ge> min_y
                 then Inr (Some \<lparr>title = Some t, authors = auths, year = Some y, abstract = abs,
                                 pdf_url = url, source = SemanticScholar\<rparr>)
                 else Inr None)))"

text \<open>The loop with its inner \<^verbatim>\<open>try\<close>: an item that raises is logged and skipped.\<close>

fun s2_collect :: "int \<Rightarrow> paper list \<Rightarrow> s2_item list \<Rightarrow> paper list" where
  "s2_collect min_y papers [] = papers"
| "s2_collect min_y papers (d # ds) =
     (case s2_item_paper min_y d of
        Inl e \<Rightarrow> s2_collect min_y papers ds
      | Inr None \<Rightarrow> s2_collect min_y papers ds
      | Inr (Some p) \<Rightarrow> s2_collect min_y (papers @ [p]) ds)"

definition s2_request :: "providers \<Rightarrow> searcher \<Rightarrow> string \<Rightarrow> exn + paper list" where
  "s2_request env cfg query =
     (case s2_api env query (max_papers cfg) (min_year cfg) of
        Inl e \<Rightarrow> Inl e
      | Inr response \<Rightarrow>
          (case status_error response of
             Some m \<Rightarrow> Inl (RequestException m)
           | None \<Rightarrow>
               (case parsed response of
                  Inl e \<Rightarrow> Inl e
                | Inr items \<Rightarrow>
                    Inr (s2_collect (min_year cfg) [] (slice_to (max_papers cfg) items)))))"

definition s2_search_papers :: "providers \<Rightarrow> searcher \<Rightarrow> string \<Rightarrow> exn + paper list" where
  "s2_search_papers env cfg query =
     (case s2_request env cfg query of Inl e \<Rightarrow> Inr [] | Inr papers \<Rightarrow> Inr papers)"

subsection \<open>MultiSourceSearcher.search_papers\<close>

text \<open>The sort key \<^verbatim>\<open>x.get('year', 0)\<close>.\<close>

definition year_key :: "paper \<Rightarrow> int" where
  "year_key p = (case year p of None \<Rightarrow> 0 | Some y \<Rightarrow> y)"

text \<open>
  \<^verbatim>\<open>list.sort(key=..., reverse=True)\<close> is a stable sort by descending key: the stable
  insertion sort of the library on the negated key.
\<close>

definition sort_newest_first :: "paper list \<Rightarrow> paper list" where
  "sort_newest_first ps = sort_key (\<lambda>p. - year_key p) ps"

text \<open>
  Both searchers get \<^verbatim>\<open>max_papers // 2\<close>; a searcher that raises is logged and skipped.
\<close>

definition all_papers :: "providers \<Rightarrow> searcher \<Rightarrow> string \<Rightarrow> paper list" where
  "all_papers env cfg query =
     (let half = \<lparr>max_papers = max_papers cfg div 2, min_year = min_year cfg\<rparr>
      in (case arxiv_search_papers env half query of Inl e \<Rightarrow> [] | Inr ps \<Rightarrow> ps)
         @ (case s2_search_papers env half query of Inl e \<Rightarrow> [] | Inr ps \<Rightarrow> ps))"

definition multi_search_papers :: "providers \<Rightarrow> searcher \<Rightarrow> string \<Rightarrow> exn + paper list" where
  "multi_search_papers env cfg query =
     Inr (slice_to (max_papers cfg)
            (sort_newest_first (remove_duplicates (all_papers env cfg query))))"

subsection \<open>The download directory and the network\<close>

text \<open>
  An entry of the download directory: a regular file with its content, or a symbolic link
  with the path of its target. The target of a link lies outside the download directory
  and is no link itself. A link whose target is missing dangles: \<^verbatim>\<open>exists()\<close> is false
  for it, \<^verbatim>\<open>stat()\<close> raises, \<^verbatim>\<open>glob\<close> lists it all the same, and \<^verbatim>\<open>open\<close> for
  writing creates the target.
\<close>

datatype entry = Regular string | Link string

text \<open>
  The answer to a streamed GET: \<open>http_error\<close> is the message of the \<^verbatim>\<open>HTTPError\<close> of
  \<^verbatim>\<open>raise_for_status\<close>, \<open>content_type\<close> the header when it is there, \<open>body_text\<close> the
  outcome of reading \<^verbatim>\<open>response.text\<close>, \<open>chunks\<close> what \<^verbatim>\<open>iter_content\<close> yields and
  \<open>stream_error\<close> the exception that ends the loop of lines 74 to 76 early, if any: a
  transfer that breaks, or a chunk that cannot be written.
\<close>

record response =
  http_error :: "string option"
  content_type :: "string option"
  body_text :: "exn + string"
  chunks :: "string list"
  stream_error :: "exn option"

text \<open>
  The environment of a \<^verbatim>\<open>PDFDownloader\<close>. \<open>dir\<close> is the download directory in listing
  order, \<open>None\<close> when it does not exist; \<open>requests\<close> records every URL requested; \<open>net\<close>
  answers the \<open>n\<close>-th request; \<open>clock\<close> is the \<open>n\<close>-th reading of
  \<^verbatim>\<open>int(time.time())\<close>. \<open>elsewhere\<close> holds the files outside the directory that links
  may point to, by path. \<open>open_fault\<close> is the message of the \<^verbatim>\<open>OSError\<close> that opening a
  name of the directory for writing raises for a reason outside this state (permissions,
  a link whose target cannot be created); \<open>enoent\<close> is the text of the
  \<^verbatim>\<open>FileNotFoundError\<close> that the platform raises for a name of the directory.
  \<open>extract_pdf_from_html\<close> stands for the method of that name, which
  is a function of the page and the base URL computed by \<^verbatim>\<open>re\<close>, \<^verbatim>\<open>BeautifulSoup\<close>
  and \<^verbatim>\<open>urljoin\<close>; it catches its own exceptions and returns a URL or \<^verbatim>\<open>None\<close>.
  A path in the download directory is written as its file name.
\<close>

record world =
  dir :: "(string \<times> entry) list option"
  elsewhere :: "(string \<times> string) list"
  open_fault :: "string \<Rightarrow> string option"
  enoent :: "string \<Rightarrow> string"
  requests :: "string list"
  net :: "nat \<Rightarrow> string \<Rightarrow> exn + response"
  clock :: "nat \<Rightarrow> nat"
  clock_reads :: nat
  extract_pdf_from_html :: "string \<Rightarrow> string \<Rightarrow> string option"

text \<open>An entry leads to a file: a regular file, or a link whose target is there.\<close>

definition resolves :: "world \<Rightarrow> entry \<Rightarrow> bool" where
  "resolves w e =
     (case e of Regular c \<Rightarrow> True | Link t \<Rightarrow> map_of (elsewhere w) t \<noteq> None)"

text \<open>
  \<^verbatim>\<open>file_path.exists()\<close>; for a name with a NUL character \<^verbatim>\<open>stat\<close> raises
  \<^verbatim>\<open>ValueError\<close>, which \<^verbatim>\<open>exists\<close> turns into false.
\<close>

definition file_exists :: "world \<Rightarrow> string \<Rightarrow> bool" where
  "file_exists w name =
     (if CHR 0x00 \<in> set name then False
      else case dir w of
             None \<Rightarrow> False
           | Some es \<Rightarrow> (case map_of es name of Some e \<Rightarrow> resolves w e | None \<Rightarrow> False))"

text \<open>
  The exception of \<^verbatim>\<open>open(file_path, 'wb')\<close>, if any: \<^verbatim>\<open>ValueError\<close> for a name with
  a NUL character, \<^verbatim>\<open>FileNotFoundError\<close> when the directory is missing, or the fault
  of the environment.
\<close>

definition open_exn :: "world \<Rightarrow> string \<Rightarrow> exn option" where
  "open_exn w name =
     (if CHR 0x00 \<in> set name then Some (Exception ''embedded null byte'')
      else if dir w = None then Some (Exception (enoent w name))
      else map_option Exception (open_fault w name))"

text \<open>
  The state after \<open>content\<close> has been written to a name that \<^verbatim>\<open>open\<close> accepted: a link
  is written through to its target, any other name becomes a regular file.
\<close>

definition write_file :: "world \<Rightarrow> string \<Rightarrow> string \<Rightarrow> world" where
  "write_file w name content =
     (case dir w of
        None \<Rightarrow> w
      | Some es \<Rightarrow>
          (case map_of es name of
             Some (Link t) \<Rightarrow> w\<lparr>elsewhere := AList.update t content (elsewhere w)\<rparr>
           | _ \<Rightarrow> w\<lparr>dir := Some (AList.update name (Regular content) es)\<rparr>))"

text \<open>\<^verbatim>\<open>file_path.unlink()\<close> removes the entry; the target of a link stays.\<close>

definition unlink_file :: "world \<Rightarrow> string \<Rightarrow> world" where
  "unlink_file w name =
     (case dir w of None \<Rightarrow> w | Some es \<Rightarrow> w\<lparr>dir := Some (AList.delete name es)\<rparr>)"

text \<open>\<^verbatim>\<open>session.get\<close> followed by \<^verbatim>\<open>raise_for_status\<close>.\<close>

definition fetch :: "world \<Rightarrow> string \<Rightarrow> (exn + response) \<times> world" where
  "fetch w url =
     (let w1 = w\<lparr>requests := requests w @ [url]\<rparr>
      in case net w (length (requests w)) url of
           Inl e \<Rightarrow> (Inl e, w1)
         | Inr r \<Rightarrow>
             (case http_error r of
                Some m \<Rightarrow> (Inl (RequestException m), w1)
              | None \<Rightarrow> (Inr r, w1)))"

subsection \<open>PDFDownloader.download_paper\<close>

text \<open>
  \<^verbatim>\<open>_create_safe_filename\<close> with \<^verbatim>\<open>max_length = 100\<close>; the removed characters are
  \<^verbatim>\<open><>:"/\|?*\<close>. Only the placeholder name reads the clock.
\<close>

definition create_safe_filename :: "world \<Rightarrow> string \<Rightarrow> string \<times> world" where
  "create_safe_filename w t =
     (let s1 = filter (\<lambda>c. c \<notin> set (''<>:/|?*'' @ [CHR 0x22, CHR 0x5C])) t;
          s2 = sub_ws_runs ''_'' False (strip s1);
          s3 = (if length s2 > 100 then take 100 s2 else s2);
          s4 = rstrip_chars ''. '' s3
      in if s4 = []
         then (''paper_'' @ str_nat (clock w (clock_reads w)), w\<lparr>clock_reads := clock_reads w + 1\<rparr>)
         else (s4, w))"

type_synonym outcome = "bool \<times> string option \<times> string"

text \<open>
  Lines 72 to 84: the file is opened for writing, which may raise and creates or truncates
  the file otherwise; the non-empty chunks are written, also those that arrive before the
  stream breaks; the size of the file is then the length of what was written, and a file
  under 1024 bytes is deleted again.
\<close>

definition save_and_verify :: "world \<Rightarrow> string \<Rightarrow> response \<Rightarrow> (exn + outcome) \<times> world" where
  "save_and_verify w filename r =
     (case open_exn w filename of
        Some e \<Rightarrow> (Inl e, w)
      | None \<Rightarrow>
          (let content = concat (filter (\<lambda>chunk. chunk \<noteq> []) (chunks r));
               w1 = write_file w filename content
           in case stream_error r of
                Some e \<Rightarrow> (Inl e, w1)
              | None \<Rightarrow>
                  if length content < 1024
                  then (Inr (False, None, ''Downloaded file too small (probably not a PDF)''),
                        unlink_file w1 filename)
                  else (Inr (True, Some filename, ''Downloaded: '' @ filename), w1)))"

text \<open>
  Lines 56 to 70: the request and, for an HTML page that is not a PDF, the second request
  to the link found in the page. \<open>Inr (Inl res)\<close> is the early return of line 70,
  \<open>Inr (Inr r)\<close> the response that is then saved.
\<close>

definition request_pdf :: "world \<Rightarrow> string \<Rightarrow> (exn + (outcome + response)) \<times> world" where
  "request_pdf w url =
     (case fetch w url of
        (Inl e, w2) \<Rightarrow> (Inl e, w2)
      | (Inr r, w2) \<Rightarrow>
          (let ct = lower (case content_type r of None \<Rightarrow> [] | Some c \<Rightarrow> c)
           in if \<not> contains ''pdf'' ct \<and> \<not> ends_with ''.pdf'' url \<and> contains ''text/html'' ct
              then
                (case body_text r of
                   Inl e \<Rightarrow> (Inl e, w2)
                 | Inr html \<Rightarrow>
                     (case extract_pdf_from_html w2 html url of
                        None \<Rightarrow> (Inr (Inl (False, None, ''Could not find PDF link in HTML'')), w2)
                      | Some u \<Rightarrow>
                          if u = []
                          then (Inr (Inl (False, None, ''Could not find PDF link in HTML'')), w2)
                          else
                            (case fetch w2 u of
                               (Inl e, w3) \<Rightarrow> (Inl e, w3)
                             | (Inr r2, w3) \<Rightarrow> (Inr (Inr r2), w3))))
              else (Inr (Inr r), w2)))"

text \<open>The body of the \<^verbatim>\<open>try\<close> block, lines 43 to 84; \<open>Inl\<close> is an exception raised in it.\<close>

definition download_attempt :: "world \<Rightarrow> string \<Rightarrow> string \<Rightarrow> (exn + outcome) \<times> world" where
  "download_attempt w url t =
     (let (safe_title, w1) = create_safe_filename w t;
          filename = safe_title @ ''.pdf''
      in if file_exists w1 filename
         then (Inr (True, Some filename, ''Already exists: '' @ filename), w1)
         else
           (case request_pdf w1 url of
              (Inl e, w2) \<Rightarrow> (Inl e, w2)
            | (Inr (Inl res), w2) \<Rightarrow> (Inr res, w2)
            | (Inr (Inr r), w2) \<Rightarrow> save_and_verify w2 filename r))"

text \<open>
  \<^verbatim>\<open>download_paper\<close>: the check of the URL, the \<^verbatim>\<open>try\<close> block and its three handlers.
  The result is an \<open>exn + outcome\<close> so that "does not raise" is a statement about it.
\<close>

definition paper_title :: "paper \<Rightarrow> string" where
  "paper_title p = (case title p of None \<Rightarrow> ''Unknown'' | Some x \<Rightarrow> x)"

definition download_paper :: "world \<Rightarrow> paper \<Rightarrow> (exn + outcome) \<times> world" where
  "download_paper w p =
     (let t = paper_title p
      in case pdf_url p of
           None \<Rightarrow> (Inr (False, None, ''No PDF URL provided''), w)
         | Some url \<Rightarrow>
             if url = [] then (Inr (False, None, ''No PDF URL provided''), w)
             else
               (case download_attempt w url t of
                  (Inr res, w') \<Rightarrow> (Inr res, w')
                | (Inl (Timeout m), w') \<Rightarrow>
                    (Inr (False, None, ''Timeout downloading: '' @ take 30 t @ ''...''), w')
                | (Inl (RequestException m), w') \<Rightarrow>
                    (Inr (False, None, ''Download error: '' @ take 50 m @ ''...''), w')
                | (Inl (Exception m), w') \<Rightarrow>
                    (Inr (False, None, ''Unexpected error: '' @ take 50 m @ ''...''), w')))"

text \<open>The file name that \<^verbatim>\<open>download_paper\<close> derives for a paper in a given environment.\<close>

definition target_filename :: "world \<Rightarrow> paper \<Rightarrow> string" where
  "target_filename w p = fst (create_safe_filename w (paper_title p)) @ ''.pdf''"

subsection \<open>PDFDownloader.download_papers\<close>

record download_result =
  res_paper :: paper
  res_success :: bool
  res_file_path :: "string option"
  res_message :: string
  res_index :: nat
  res_total :: nat

text \<open>
  The loop over \<^verbatim>\<open>enumerate(papers)\<close>, \<open>i\<close> being the index of the next paper. The
  callback works on a state \<open>'s\<close> of the caller and either returns, with the new state,
  or raises; it is called outside any \<^verbatim>\<open>try\<close>, so its exception ends the loop and
  reaches the caller. \<open>None\<close> is no callback.
\<close>

type_synonym 's callback = "nat \<Rightarrow> nat \<Rightarrow> download_result \<Rightarrow> 's \<Rightarrow> exn + 's"

fun download_loop ::
  "'s callback option \<Rightarrow> nat \<Rightarrow> nat \<Rightarrow> paper list \<Rightarrow>
   download_result list \<Rightarrow> world \<Rightarrow> 's \<Rightarrow> (exn + download_result list) \<times> world \<times> 's" where
  "download_loop progress_callback total_papers i [] results w s = (Inr results, w, s)"
| "download_loop progress_callback total_papers i (p # rest) results w s =
     (case download_paper w p of
        (Inl e, w') \<Rightarrow> (Inl e, w', s)
      | (Inr (success, file_path, message), w') \<Rightarrow>
          (let result = \<lparr>res_paper = p, res_success = success, res_file_path = file_path,
                         res_message = message, res_index = i + 1, res_total = total_papers\<rparr>
           in case (case progress_callback of
                      None \<Rightarrow> Inr s
                    | Some f \<Rightarrow> f (i + 1) total_papers result s) of
                Inl e \<Rightarrow> (Inl e, w', s)
              | Inr s' \<Rightarrow>
                  download_loop progress_callback total_papers (i + 1) rest
                    (results @ [result]) w' s'))"

definition download_papers ::
  "'s callback option \<Rightarrow> paper list \<Rightarrow> world \<Rightarrow> 's \<Rightarrow>
   (exn + download_result list) \<times> world \<times> 's" where
  "download_papers progress_callback papers w s =
     download_loop progress_callback (length papers) 0 papers [] w s"

text \<open>A callback that returns on every call: a function on the caller's state.\<close>

definition returning ::
  "(nat \<Rightarrow> nat \<Rightarrow> download_result \<Rightarrow> 's \<Rightarrow> 's) \<Rightarrow> 's callback" where
  "returning f i n r s = Inr (f i n r s)"

subsection \<open>PDFDownloader.get_download_stats\<close>

text \<open>
  The returned dictionary: \<open>None\<close> is a key that the dictionary does not have.
  \<open>total_size_mb\<close> is in hundredths of a megabyte: \<^verbatim>\<open>round(total_size / (1024 * 1024), 2)\<close>
  is the float next to that many hundredths.
\<close>

record stats =
  total_files :: nat
  total_size :: nat
  total_size_mb :: "nat option"
  files :: "string list option"

definition round_mb :: "nat \<Rightarrow> nat" where
  "round_mb n =
     (let q = (n * 100) div 1048576; r = (n * 100) mod 1048576
      in if 2 * r < 1048576 then q
         else if 2 * r > 1048576 then q + 1
         else if even q then q else q + 1)"

text \<open>
  \<^verbatim>\<open>f.stat().st_size\<close> follows a link; on a dangling one it raises
  \<^verbatim>\<open>FileNotFoundError\<close>.
\<close>

definition stat_size :: "world \<Rightarrow> string \<times> entry \<Rightarrow> exn + nat" where
  "stat_size w f =
     (case snd f of
        Regular c \<Rightarrow> Inr (length c)
      | Link t \<Rightarrow>
          (case map_of (elsewhere w) t of
             None \<Rightarrow> Inl (Exception (enoent w (fst f)))
           | Some c \<Rightarrow> Inr (length c)))"

text \<open>The sizes of the listed files, in order; the first failure is raised.\<close>

fun stat_sizes :: "world \<Rightarrow> (string \<times> entry) list \<Rightarrow> exn + nat list" where
  "stat_sizes w [] = Inr []"
| "stat_sizes w (f # fs) =
     (case stat_size w f of
        Inl e \<Rightarrow> Inl e
      | Inr n \<Rightarrow> (case stat_sizes w fs of Inl e \<Rightarrow> Inl e | Inr ns \<Rightarrow> Inr (n # ns)))"

definition get_download_stats :: "world \<Rightarrow> exn + stats" where
  "get_download_stats w =
     (case dir w of
        None \<Rightarrow> Inr \<lparr>total_files = 0, total_size = 0, total_size_mb = None, files = None\<rparr>
      | Some es \<Rightarrow>
          (let pdf_files = filter (\<lambda>f. ends_with ''.pdf'' (fst f)) es
           in case stat_sizes w pdf_files of
                Inl e \<Rightarrow> Inl e
              | Inr sizes \<Rightarrow>
                  Inr \<lparr>total_files = length pdf_files,
                       total_size = sum_list sizes,
                       total_size_mb = Some (round_mb (sum_list sizes)),
                       files = Some (map fst pdf_files)\<rparr>))"

subsection \<open>Exceptions inside download_paper\<close>



subsection \<open>The invariant of a retained paper\<close>

text \<open>A non-empty title, a URL that is there, and a year not below \<open>min_year\<close>.\<close>

definition retained :: "int \<Rightarrow> paper \<Rightarrow> bool" where
  "retained min_y p =
     (truthy (title p) \<and> truthy (pdf_url p) \<and> (case year p of None \<Rightarrow> False | Some y \<Rightarrow> min_y \<le> y))"

subsection \<open>Concrete environments and papers\<close>

text \<open>
  Small inputs on which the functions above are evaluated: a network that refuses every
  connection, one that serves a given body as a PDF, one whose stream breaks after the
  given chunks, an environment around a given directory named \<^verbatim>\<open>downloads\<close>, and papers
  with and without a URL.
\<close>

definition offline :: "nat \<Rightarrow> string \<Rightarrow> exn + response" where
  "offline n url = Inl (RequestException ''connection refused'')"

definition serving :: "string list \<Rightarrow> nat \<Rightarrow> string \<Rightarrow> exn + response" where
  "serving cs n url =
     Inr \<lparr>http_error = None, content_type = Some ''application/pdf'', body_text = Inr [],
          chunks = cs, stream_error = None\<rparr>"

definition breaking :: "string list \<Rightarrow> nat \<Rightarrow> string \<Rightarrow> exn + response" where
  "breaking cs n url =
     Inr \<lparr>http_error = None, content_type = Some ''application/pdf'', body_text = Inr [],
          chunks = cs, stream_error = Some (RequestException ''Connection broken'')\<rparr>"

definition env_of ::
  "(string \<times> entry) list option \<Rightarrow> (nat \<Rightarrow> string \<Rightarrow> exn + response) \<Rightarrow> world" where
  "env_of d n =
     \<lparr>dir = d, elsewhere = [], open_fault = (\<lambda>name. None),
      enoent = (\<lambda>name. ''[Errno 2] No such file or directory: '' @ [CHR 0x27]
                        @ ''downloads/'' @ name @ [CHR 0x27]),
      requests = [], net = n, clock = (\<lambda>k. 1700000000 + k), clock_reads = 0,
      extract_pdf_from_html = (\<lambda>html base. None)\<rparr>"

definition paper_of :: "string \<Rightarrow> int \<Rightarrow> string option \<Rightarrow> paper" where
  "paper_of t y u =
     \<lparr>title = Some t, authors = [], year = Some y, abstract = [], pdf_url = u, source = ArXiv\<rparr>"

definition entry_of :: "string \<Rightarrow> string \<Rightarrow> string \<Rightarrow> arxiv_entry" where
  "entry_of t d i =
     \<lparr>entry_title = Some t, entry_summary = None, entry_authors = [Some ''A. Author''],
      entry_published = Some d, entry_links = [], entry_id = Some i\<rparr>"

definition item_of :: "string \<Rightarrow> json_year \<Rightarrow> string \<Rightarrow> s2_item" where
  "item_of t y u =
     \<lparr>item_title = Some t, item_abstract = None, item_year = y, item_authors = [],
      item_open_access = Some (Some u)\<rparr>"

definition providers_of :: "arxiv_entry list \<Rightarrow> s2_item list \<Rightarrow> providers" where
  "providers_of es ds =
     \<lparr>arxiv_api = (\<lambda>q n. Inr \<lparr>status_error = None, parsed = Inr es\<rparr>),
      s2_api = (\<lambda>q n y. Inr \<lparr>status_error = None, parsed = Inr ds\<rparr>)\<rparr>"

section \<open>Properties of the download pipeline\<close>

subsection \<open>Shapes of the results of download_paper\<close>

lemma save_and_verify_cases:
  "save_and_verify w filename r = (res, w') \<Longrightarrow>
     (\<exists>e. res = Inl e) \<or> (\<exists>m. res = Inr (False, None, m)) \<or> (\<exists>f m. res = Inr (True, Some f, m))"
  by (auto simp: save_and_verify_def Let_def split: option.splits if_splits)

lemma request_pdf_cases:
  "request_pdf w url = (res, w') \<Longrightarrow>
     (\<exists>e. res = Inl e) \<or> (\<exists>m. res = Inr (Inl (False, None, m))) \<or> (\<exists>r. res = Inr (Inr r))"
  by (auto simp: request_pdf_def fetch_def Let_def split: option.splits if_splits sum.splits)

lemma download_attempt_cases:
  "download_attempt w url t = (res, w') \<Longrightarrow>
     (\<exists>e. res = Inl e) \<or> (\<exists>m. res = Inr (False, None, m)) \<or> (\<exists>f m. res = Inr (True, Some f, m))"
  unfolding download_attempt_def Let_def
  by (auto split: prod.splits if_splits sum.splits dest: save_and_verify_cases request_pdf_cases)

text \<open>With a URL, the success flag is the one of the \<^verbatim>\<open>try\<close> block; a raise clears it.\<close>

lemma download_paper_with_url:
  assumes "pdf_url p = Some url" and "url \<noteq> []"
  shows "\<exists>s fp m w'. download_paper w p = (Inr (s, fp, m), w') \<and> (s \<longleftrightarrow> fp \<noteq> None)
           \<and> (s \<longleftrightarrow> (\<exists>f m' w1. download_attempt w url (paper_title p) = (Inr (True, f, m'), w1)))"
proof -
  obtain res w1 where a: "download_attempt w url (paper_title p) = (res, w1)"
    by (cases "download_attempt w url (paper_title p)")
  from download_attempt_cases [OF a] assms a show ?thesis
    by (auto simp: download_paper_def Let_def split: exn.splits)
qed

lemma download_paper_cases:
  "(\<exists>m w'. download_paper w p = (Inr (False, None, m), w')) \<or>
   (\<exists>f m w'. download_paper w p = (Inr (True, Some f, m), w'))"
proof (cases "pdf_url p")
  case None
  then show ?thesis by (simp add: download_paper_def)
next
  case (Some url)
  show ?thesis
  proof (cases "url = []")
    case True
    with Some show ?thesis by (simp add: download_paper_def)
  next
    case False
    from download_paper_with_url [OF Some False, of w] show ?thesis
      by (cases "download_paper w p") auto
  qed
qed

lemma download_paper_returns: "\<exists>res w'. download_paper w p = (Inr res, w')"
  using download_paper_cases [of w p] by auto

lemma create_safe_filename_frame:
  "dir (snd (create_safe_filename w t)) = dir w"
  "requests (snd (create_safe_filename w t)) = requests w"
  "elsewhere (snd (create_safe_filename w t)) = elsewhere w"
  by (simp_all add: create_safe_filename_def Let_def)

lemma file_exists_dir:
  "dir w' = dir w \<Longrightarrow> elsewhere w' = elsewhere w \<Longrightarrow> file_exists w' n = file_exists w n"
  by (auto simp: file_exists_def resolves_def split: option.splits entry.splits)

lemma concat_nonempty: "concat (filter (\<lambda>c. c \<noteq> []) xs) = concat xs"
  by (induction xs) auto

lemma delete_update_same: "AList.delete k (AList.update k v al) = AList.delete k al"
  by (induction al) auto

text \<open>Evaluation of the small inputs.\<close>

lemma env_of_simps [simp]:
  "dir (env_of d n) = d"
  "elsewhere (env_of d n) = []"
  "open_fault (env_of d n) = (\<lambda>name. None)"
  "enoent (env_of d n) name
     = ''[Errno 2] No such file or directory: '' @ [CHR 0x27] @ ''downloads/'' @ name @ [CHR 0x27]"
  "requests (env_of d n) = []"
  "net (env_of d n) = n"
  "extract_pdf_from_html (env_of d n) = (\<lambda>html base. None)"
  by (simp_all add: env_of_def)

lemma paper_of_simps [simp]:
  "title (paper_of t y u) = Some t"
  "pdf_url (paper_of t y u) = u"
  "year (paper_of t y u) = Some y"
  "paper_title (paper_of t y u) = t"
  by (simp_all add: paper_of_def paper_title_def)

lemma target_filename_A [simp]:
  "target_filename (env_of d n) (paper_of ''A'' y u) = ''A.pdf''"
  by (simp add: target_filename_def create_safe_filename_def strip_def is_space_def
      rstrip_chars_def Let_def)

lemma create_safe_filename_A [simp]:
  "create_safe_filename (env_of d n) ''A'' = (''A'', env_of d n)"
  by (simp add: create_safe_filename_def strip_def is_space_def rstrip_chars_def Let_def)

text \<open>
  \<^bold>\<open>Claim C9.\<close> For a paper whose \<open>pdf_url\<close> is missing or empty, \<open>download_paper\<close>
  returns \<open>(False, None, "No PDF URL provided")\<close> and leaves the environment as it was:
  no request is recorded and the directory is unchanged.
\<close>

theorem download_paper_no_url:
  "\<not> truthy (pdf_url p) \<Longrightarrow>
     download_paper w p = (Inr (False, None, ''No PDF URL provided''), w)"
  by (auto simp: download_paper_def truthy_def split: option.splits)

theorem download_paper_no_url_witness:
  "\<not> truthy (pdf_url (paper_of ''A'' 2024 None))
   \<and> download_paper (env_of (Some []) offline) (paper_of ''A'' 2024 None)
       = (Inr (False, None, ''No PDF URL provided''), env_of (Some []) offline)"
proof -
  have h: "\<not> truthy (pdf_url (paper_of ''A'' 2024 None))"
    by (simp add: truthy_def)
  from download_paper_no_url [OF h, of "env_of (Some []) offline"] h show ?thesis
    by simp
qed

text \<open>
  \<^bold>\<open>Claim C10.\<close> For every paper and environment, \<open>download_paper\<close> returns a triple
  whose path is present exactly when its success flag is true.
\<close>

theorem download_paper_path_iff_success:
  "\<exists>s fp m w'. download_paper w p = (Inr (s, fp, m), w') \<and> (s \<longleftrightarrow> fp \<noteq> None)"
  using download_paper_cases [of w p] by auto

theorem download_paper_path_iff_success_witness:
  "\<exists>s fp m w'. download_paper (env_of (Some []) offline) (paper_of ''A'' 2024 (Some ''http://x/a.pdf''))
       = (Inr (s, fp, m), w') \<and> (s \<longleftrightarrow> fp \<noteq> None)"
  by (rule download_paper_path_iff_success)




lemma unlink_write_dir:
  "dir w = Some es \<Longrightarrow>
     dir (unlink_file (write_file w name content) name) = Some (AList.delete name es)"
  by (auto simp: unlink_file_def write_file_def delete_update_same
      split: option.splits entry.splits)

text \<open>
  \<^bold>\<open>Claim C7\<close> speaks of every download whose written body is under 1024 bytes. When
  the stream breaks after a few bytes, the handler of \<^verbatim>\<open>RequestException\<close> returns
  "Download error" and the file with the bytes written so far stays in the directory.
\<close>

theorem partial_file_left_behind:
  "length (concat [''tiny'']) < 1024
   \<and> fst (download_paper (env_of (Some []) (breaking [''tiny'']))
            (paper_of ''A'' 2024 (Some ''http://x/a'')))
       = Inr (False, None, ''Download error: Connection broken...'')
   \<and> dir (snd (download_paper (env_of (Some []) (breaking [''tiny'']))
                 (paper_of ''A'' 2024 (Some ''http://x/a''))))
       = Some [(''A.pdf'', Regular ''tiny'')]"
  by (simp add: download_paper_def download_attempt_def file_exists_def request_pdf_def
      fetch_def breaking_def save_and_verify_def open_exn_def write_file_def
      lower_def lower_char_def Let_def)

text \<open>
  \<^bold>\<open>Claim C7, amended.\<close> When \<open>download_paper\<close> gets as far as saving a response (the
  paper has a URL, its file is not there yet and the request yields a response), the file
  is opened for writing, the body is streamed to its end and is under 1024 bytes, then the
  result is \<open>(False, None, "Downloaded file too small (probably not a PDF)")\<close>, the
  written file is deleted, and the directory afterwards has no entry of that name: it is
  the directory before without the target. Bytes written through a dangling link at that
  name stay in the target of the link.
\<close>

theorem download_paper_too_small:
  assumes u: "pdf_url p = Some url" "url \<noteq> []"
    and fresh: "\<not> file_exists w (target_filename w p)"
    and got: "request_pdf (snd (create_safe_filename w (paper_title p))) url = (Inr (Inr r), w2)"
    and opened: "open_exn w2 (target_filename w p) = None"
    and complete: "stream_error r = None"
    and small: "length (concat (chunks r)) < 1024"
  shows "\<exists>w'. download_paper w p =
           (Inr (False, None, ''Downloaded file too small (probably not a PDF)''), w')
         \<and> dir w' = map_option (AList.delete (target_filename w p)) (dir w2)
         \<and> dir w' \<noteq> None
         \<and> \<not> file_exists w' (target_filename w p)
         \<and> elsewhere w' = elsewhere (write_file w2 (target_filename w p) (concat (chunks r)))"
proof -
  obtain st w1 where c: "create_safe_filename w (paper_title p) = (st, w1)"
    by (cases "create_safe_filename w (paper_title p)")
  have fr: "dir w1 = dir w" "elsewhere w1 = elsewhere w"
    using create_safe_filename_frame [of w "paper_title p"] c by simp_all
  have tf: "target_filename w p = st @ ''.pdf''"
    by (simp add: target_filename_def c)
  have nex: "\<not> file_exists w1 (st @ ''.pdf'')"
    using fresh tf file_exists_dir [OF fr] by simp
  have g: "request_pdf w1 url = (Inr (Inr r), w2)"
    using got c by simp
  obtain es where d: "dir w2 = Some es"
    using opened by (auto simp: open_exn_def split: if_splits)
  let ?w' = "unlink_file (write_file w2 (st @ ''.pdf'') (concat (chunks r))) (st @ ''.pdf'')"
  have sv: "save_and_verify w2 (st @ ''.pdf'') r =
      (Inr (False, None, ''Downloaded file too small (probably not a PDF)''), ?w')"
    using opened tf complete small
    by (simp add: save_and_verify_def Let_def concat_nonempty)
  have "download_attempt w url (paper_title p) =
      (Inr (False, None, ''Downloaded file too small (probably not a PDF)''), ?w')"
    using c nex g sv by (simp add: download_attempt_def Let_def)
  then have dp: "download_paper w p =
      (Inr (False, None, ''Downloaded file too small (probably not a PDF)''), ?w')"
    using u by (simp add: download_paper_def)
  have dd: "dir ?w' = Some (AList.delete (st @ ''.pdf'') es)"
    using unlink_write_dir [OF d] by simp
  have ne: "\<not> file_exists ?w' (st @ ''.pdf'')"
    using dd by (simp add: file_exists_def delete_conv)
  have el: "elsewhere ?w' = elsewhere (write_file w2 (st @ ''.pdf'') (concat (chunks r)))"
    by (simp add: unlink_file_def split: option.splits)
  show ?thesis
    using dp dd ne el d tf by simp
qed

theorem download_paper_too_small_witness:
  "\<not> file_exists (env_of (Some []) (serving [''tiny'']))
       (target_filename (env_of (Some []) (serving [''tiny''])) (paper_of ''A'' 2024 (Some ''http://x/a'')))
   \<and> open_exn ((env_of (Some []) (serving [''tiny'']))\<lparr>requests := [''http://x/a'']\<rparr>) ''A.pdf'' = None
   \<and> length (concat [''tiny'']) < 1024
   \<and> (\<exists>w'. download_paper (env_of (Some []) (serving [''tiny''])) (paper_of ''A'' 2024 (Some ''http://x/a''))
            = (Inr (False, None, ''Downloaded file too small (probably not a PDF)''), w')
          \<and> dir w' = Some [] \<and> \<not> file_exists w' ''A.pdf'' \<and> elsewhere w' = [])"
proof -
  let ?w = "env_of (Some []) (serving [''tiny''])"
  let ?p = "paper_of ''A'' 2024 (Some ''http://x/a'')"
  let ?r = "\<lparr>http_error = None, content_type = Some ''application/pdf'', body_text = Inr [],
             chunks = [''tiny''], stream_error = None\<rparr>"
  have h1: "pdf_url ?p = Some ''http://x/a''" and h2: "''http://x/a'' \<noteq> []"
    by simp_all
  have h3: "\<not> file_exists ?w (target_filename ?w ?p)"
    by (simp add: file_exists_def)
  have h4: "request_pdf (snd (create_safe_filename ?w (paper_title ?p))) ''http://x/a''
      = (Inr (Inr ?r), ?w\<lparr>requests := [''http://x/a'']\<rparr>)"
    by (simp add: request_pdf_def fetch_def serving_def
        lower_def lower_char_def Let_def)
  have h5: "open_exn (?w\<lparr>requests := [''http://x/a'']\<rparr>) (target_filename ?w ?p) = None"
    by (simp add: open_exn_def)
  have h6: "stream_error ?r = None" and h7: "length (concat (chunks ?r)) < 1024"
    by simp_all
  from download_paper_too_small [OF h1 h2 h3 h4 h5 h6 h7] h3 h5 show ?thesis
    by (auto simp: write_file_def)
qed

subsection \<open>The batch loop\<close>

lemma download_loop_results:
  "\<exists>rs w' s'. download_loop (map_option returning cb) n i ps acc w s = (Inr (acc @ rs), w', s')
     \<and> map res_paper rs = ps
     \<and> map res_index rs = [Suc i..<Suc (i + length ps)]
     \<and> map res_total rs = replicate (length ps) n
     \<and> s' = (case cb of None \<Rightarrow> s | Some f \<Rightarrow> foldl (\<lambda>st r. f (res_index r) n r st) s rs)"
proof (induction ps arbitrary: i acc w s)
  case Nil
  then show ?case by (simp split: option.splits)
next
  case (Cons p ps)
  obtain su fp m w1 where dp: "download_paper w p = (Inr (su, fp, m), w1)"
    using download_paper_returns [of w p] by auto
  define result where "result = \<lparr>res_paper = p, res_success = su, res_file_path = fp,
     res_message = m, res_index = i + 1, res_total = n\<rparr>"
  define s1 where "s1 = (case cb of None \<Rightarrow> s | Some f \<Rightarrow> f (i + 1) n result s)"
  have step: "download_loop (map_option returning cb) n i (p # ps) acc w s
      = download_loop (map_option returning cb) n (i + 1) ps (acc @ [result]) w1 s1"
    using dp by (cases cb) (simp_all add: result_def s1_def Let_def returning_def)
  from Cons.IH [of "i + 1" "acc @ [result]" w1 s1]
  obtain rs w' s' where ih:
     "download_loop (map_option returning cb) n (i + 1) ps (acc @ [result]) w1 s1
        = (Inr ((acc @ [result]) @ rs), w', s')"
     "map res_paper rs = ps"
     "map res_index rs = [Suc (i + 1)..<Suc (i + 1 + length ps)]"
     "map res_total rs = replicate (length ps) n"
     "s' = (case cb of None \<Rightarrow> s1 | Some f \<Rightarrow> foldl (\<lambda>st r. f (res_index r) n r st) s1 rs)"
    by blast
  have a: "download_loop (map_option returning cb) n i (p # ps) acc w s
      = (Inr (acc @ (result # rs)), w', s')"
    using step ih(1) by simp
  have b: "map res_paper (result # rs) = p # ps"
    using ih(2) by (simp add: result_def)
  have c: "map res_index (result # rs) = [Suc i..<Suc (i + length (p # ps))]"
    using ih(3) by (simp add: result_def upt_conv_Cons del: upt_Suc)
  have d: "map res_total (result # rs) = replicate (length (p # ps)) n"
    using ih(4) by (simp add: result_def)
  have e: "s' = (case cb of None \<Rightarrow> s
                | Some f \<Rightarrow> foldl (\<lambda>st r. f (res_index r) n r st) s (result # rs))"
    using ih(5) by (simp add: s1_def result_def split: option.splits)
  show ?case
    using a b c d e
    by (intro exI [of _ "result # rs"] exI [of _ w'] exI [of _ s'] conjI) assumption+
qed



text \<open>
  \<^bold>\<open>Claim C5.\<close> For a list of \<open>N\<close> papers, \<open>download_papers\<close> returns \<open>N\<close> results
  for the papers in input order, with the indices \<open>1, ..., N\<close> and the total \<open>N\<close> in each;
  a callback, which returns on every call, is run once per result, in that order, on the
  index, \<open>N\<close> and the result, so the caller's state at the end is the fold of the callback
  over the results.
\<close>

theorem download_papers_results:
  "\<exists>rs w' s'. download_papers (map_option returning cb) ps w s = (Inr rs, w', s')
     \<and> length rs = length ps
     \<and> map res_paper rs = ps
     \<and> map res_index rs = [1..<Suc (length ps)]
     \<and> map res_total rs = replicate (length ps) (length ps)
     \<and> s' = (case cb of None \<Rightarrow> s
             | Some f \<Rightarrow> foldl (\<lambda>st r. f (res_index r) (length ps) r st) s rs)"
proof -
  from download_loop_results [of cb "length ps" 0 ps "[]" w s]
  obtain rs w' s' where r:
    "download_loop (map_option returning cb) (length ps) 0 ps [] w s = (Inr ([] @ rs), w', s')"
    "map res_paper rs = ps"
    "map res_index rs = [Suc 0..<Suc (0 + length ps)]"
    "map res_total rs = replicate (length ps) (length ps)"
    "s' = (case cb of None \<Rightarrow> s
           | Some f \<Rightarrow> foldl (\<lambda>st r. f (res_index r) (length ps) r st) s rs)"
    by blast
  have l: "length rs = length ps"
    using r(2) by (metis length_map)
  have a: "download_papers (map_option returning cb) ps w s = (Inr rs, w', s')"
    using r(1) by (simp add: download_papers_def)
  have c: "map res_index rs = [1..<Suc (length ps)]"
    using r(3) by simp
  show ?thesis
    using a l r(2) c r(4) r(5)
    by (intro exI [of _ rs] exI [of _ w'] exI [of _ s'] conjI) assumption+
qed

theorem download_papers_results_witness:
  "\<exists>rs w' s'. download_papers (Some (returning (\<lambda>i n r log. log @ [(i, n)])))
        [paper_of ''A'' 2024 None, paper_of ''B'' 2023 None] (env_of (Some []) offline) []
      = (Inr rs, w', s')
     \<and> length rs = 2
     \<and> map res_paper rs = [paper_of ''A'' 2024 None, paper_of ''B'' 2023 None]
     \<and> map res_index rs = [1, 2]
     \<and> map res_total rs = [2, 2]
     \<and> s' = foldl (\<lambda>st r. st @ [(res_index r, 2)]) [] rs"
  using download_papers_results [of "Some (\<lambda>i n r log. log @ [(i, n)])"
      "[paper_of ''A'' 2024 None, paper_of ''B'' 2023 None]" "env_of (Some []) offline" "[]"]
  by (simp add: upt_conv_Cons numeral_2_eq_2)

subsection \<open>The storage inspector\<close>




text \<open>
  \<^bold>\<open>Claim C8\<close> says that for a missing directory, as for an empty one, the record holds
  \<open>total_files = 0\<close>, \<open>total_size_mb = 0.0\<close> and an empty \<open>files\<close> list. The code returns at
  line 181 a dictionary with the keys \<open>total_files\<close> and \<open>total_size\<close> only, while the
  return of line 186 has all four: evaluated on a missing and on an empty directory.
\<close>

theorem get_download_stats_missing_directory:
  "get_download_stats (env_of None offline)
     = Inr \<lparr>total_files = 0, total_size = 0, total_size_mb = None, files = None\<rparr>
   \<and> get_download_stats (env_of (Some []) offline)
     = Inr \<lparr>total_files = 0, total_size = 0, total_size_mb = Some 0, files = Some []\<rparr>"
  by (simp add: get_download_stats_def round_mb_def)

section \<open>Properties of the search pipeline\<close>

subsection \<open>What a provider retains\<close>

lemma truthy_simps [simp]: "truthy (Some s) \<longleftrightarrow> s \<noteq> []" "\<not> truthy None"
  by (simp_all add: truthy_def)

lemma arxiv_entry_paper_retained: "arxiv_entry_paper m e = Some p \<Longrightarrow> retained m p"
  unfolding arxiv_entry_paper_def Let_def retained_def
  by (auto split: if_splits)

lemma s2_item_paper_retained: "s2_item_paper m d = Inr (Some p) \<Longrightarrow> retained m p"
  unfolding s2_item_paper_def Let_def retained_def
  by (auto split: if_splits json_year.splits)

lemma s2_collect_retained:
  "list_all (retained m) acc \<Longrightarrow> list_all (retained m) (s2_collect m acc ds)"
proof (induction ds arbitrary: acc)
  case Nil
  then show ?case by simp
next
  case (Cons d ds)
  then show ?case
    by (auto split: sum.splits option.splits dest: s2_item_paper_retained)
qed

lemma map_filter_retained:
  "list_all (retained m) (List.map_filter (arxiv_entry_paper m) es)"
proof (induction es)
  case Nil
  then show ?case by simp
next
  case (Cons e es)
  then show ?case
    by (cases "arxiv_entry_paper m e") (simp_all add: arxiv_entry_paper_retained)
qed

lemma arxiv_request_retained:
  "arxiv_request env cfg q = Inr ps \<Longrightarrow> list_all (retained (min_year cfg)) ps"
  using map_filter_retained [of "min_year cfg"]
  by (auto simp: arxiv_request_def split: sum.splits option.splits)

lemma s2_request_retained:
  "s2_request env cfg q = Inr ps \<Longrightarrow> list_all (retained (min_year cfg)) ps"
  using s2_collect_retained [of "min_year cfg" "[]"]
  by (auto simp: s2_request_def split: sum.splits option.splits)

text \<open>
  \<^bold>\<open>Claim C2.\<close> For every query, environment and configuration, each paper in the list
  that the arXiv searcher or the Semantic Scholar searcher returns has a non-empty title,
  a URL that is present (and non-empty) and a year not below \<open>min_year\<close>.
\<close>

theorem providers_retain_valid_papers:
  "(\<exists>ps. arxiv_search_papers env cfg q = Inr ps \<and> list_all (retained (min_year cfg)) ps)
   \<and> (\<exists>ps. s2_search_papers env cfg q = Inr ps \<and> list_all (retained (min_year cfg)) ps)"
proof
  show "\<exists>ps. arxiv_search_papers env cfg q = Inr ps \<and> list_all (retained (min_year cfg)) ps"
    using arxiv_request_retained [of env cfg q]
    by (cases "arxiv_request env cfg q") (simp_all add: arxiv_search_papers_def)
  show "\<exists>ps. s2_search_papers env cfg q = Inr ps \<and> list_all (retained (min_year cfg)) ps"
    using s2_request_retained [of env cfg q]
    by (cases "s2_request env cfg q") (simp_all add: s2_search_papers_def)
qed

theorem providers_retain_valid_papers_witness:
  "(\<exists>ps. arxiv_search_papers
           (providers_of [entry_of ''Old'' ''2023-05-01'' ''http://arxiv.org/abs/2305.00001v1'',
                          entry_of ''New'' ''2024-05-01'' ''http://arxiv.org/abs/2405.00001v1'']
                         [item_of ''B'' YearNull ''http://x/b.pdf'', item_of ''C'' (YearInt 2025) ''http://x/c.pdf''])
           \<lparr>max_papers = 10, min_year = 2024\<rparr> ''q'' = Inr ps
         \<and> list_all (retained 2024) ps)
   \<and> (\<exists>ps. s2_search_papers
           (providers_of [entry_of ''Old'' ''2023-05-01'' ''http://arxiv.org/abs/2305.00001v1'',
                          entry_of ''New'' ''2024-05-01'' ''http://arxiv.org/abs/2405.00001v1'']
                         [item_of ''B'' YearNull ''http://x/b.pdf'', item_of ''C'' (YearInt 2025) ''http://x/c.pdf''])
           \<lparr>max_papers = 10, min_year = 2024\<rparr> ''q'' = Inr ps
         \<and> list_all (retained 2024) ps)"
  using providers_retain_valid_papers
    [of "providers_of [entry_of ''Old'' ''2023-05-01'' ''http://arxiv.org/abs/2305.00001v1'',
                       entry_of ''New'' ''2024-05-01'' ''http://arxiv.org/abs/2405.00001v1'']
                      [item_of ''B'' YearNull ''http://x/b.pdf'', item_of ''C'' (YearInt 2025) ''http://x/c.pdf'']"
        "\<lparr>max_papers = 10, min_year = 2024\<rparr>" "''q''"]
  by simp

subsection \<open>Deduplication\<close>

lemma loop_firsts:
  "remove_duplicates_loop acc seen ps = acc @ firsts simple_title seen ps"
  by (induction ps arbitrary: acc seen) auto

lemma firsts_index:
  "firsts key seen xs =
     map (\<lambda>i. xs ! i)
       (filter (\<lambda>i. key (xs ! i) \<notin> seen \<union> key ` set (take i xs)) [0..<length xs])"
proof (induction xs arbitrary: seen)
  case Nil
  then show ?case by simp
next
  case (Cons x xs)
  have upt: "[0..<length (x # xs)] = 0 # map Suc [0..<length xs]"
    by (simp add: upt_conv_Cons map_Suc_upt del: upt_Suc)
  show ?case
  proof (cases "key x \<in> seen")
    case True
    have "filter (\<lambda>i. key (xs ! i) \<notin> seen \<and> key (xs ! i) \<noteq> key x
                        \<and> key (xs ! i) \<notin> key ` set (take i xs)) [0..<length xs]
        = filter (\<lambda>i. key (xs ! i) \<notin> seen \<union> key ` set (take i xs)) [0..<length xs]"
      using True by (intro filter_cong) auto
    with True show ?thesis
      unfolding upt using Cons.IH [of seen]
      by (simp add: filter_map comp_def)
  next
    case False
    then show ?thesis
      unfolding upt using Cons.IH [of "insert (key x) seen"]
      by (simp add: filter_map comp_def conj_commute conj_left_commute)
  qed
qed

lemma remove_duplicates_first: "remove_duplicates ps = first_of_key simple_title ps"
  by (simp add: remove_duplicates_def loop_firsts firsts_index first_of_key_def)

text \<open>Splitting at whitespace and joining by one space is collapsing the runs and stripping.\<close>

lemma strip_rstrip: "strip s = rstrip_ws (dropWhile is_space s)"
  by (simp add: strip_def rstrip_ws_def)

lemma rstrip_ws_Cons:
  "rstrip_ws (c # s) = (if is_space c \<and> rstrip_ws s = [] then [] else c # rstrip_ws s)"
proof (cases "\<forall>x\<in>set s. is_space x")
  case True
  then show ?thesis
    by (simp add: rstrip_ws_def dropWhile_append dropWhile_eq_Nil_conv)
next
  case False
  then show ?thesis
    by (simp add: rstrip_ws_def dropWhile_append dropWhile_eq_Nil_conv)
qed

lemma sub_ws_runs_False:
  "sub_ws_runs '' '' False s =
     (if s \<noteq> [] \<and> is_space (hd s) then CHR '' '' # sub_ws_runs '' '' True s
      else sub_ws_runs '' '' True s)"
  by (cases s) simp_all

lemma sub_ws_runs_True_head:
  "sub_ws_runs '' '' True s = [] \<or> \<not> is_space (hd (sub_ws_runs '' '' True s))"
  by (induction s) auto

lemma space_is_space: "is_space CHR '' ''"
  by (simp add: is_space_def)

lemma strip_sub_ws_runs_True:
  "strip (sub_ws_runs '' '' True s) = rstrip_ws (sub_ws_runs '' '' True s)"
  using sub_ws_runs_True_head [of s]
  by (cases "sub_ws_runs '' '' True s") (auto simp: strip_rstrip)

lemma strip_sub_ws_runs_False:
  "strip (sub_ws_runs '' '' False s) = rstrip_ws (sub_ws_runs '' '' True s)"
  using strip_sub_ws_runs_True [of s]
  by (simp add: sub_ws_runs_False strip_rstrip space_is_space)

lemma split_ws_nonempty: "[] \<notin> set (split_ws w s)"
  by (induction s arbitrary: w) auto

lemma join_Nil_iff: "[] \<notin> set ws \<Longrightarrow> join sep ws = [] \<longleftrightarrow> ws = []"
  by (induction sep ws rule: join.induct) auto

lemma join_Cons: "join sep (w # ws) = (if ws = [] then w else w @ sep @ join sep ws)"
  by (cases ws) simp_all

lemma join_split_ws:
  "join '' '' (split_ws w s) =
     (if w = [] then strip (sub_ws_runs '' '' False s)
      else w @ rstrip_ws (sub_ws_runs '' '' False s))"
proof (induction s arbitrary: w)
  case Nil
  then show ?case by (simp add: strip_def rstrip_ws_def)
next
  case (Cons c cs)
  show ?case
  proof (cases "is_space c")
    case True
    have j: "join '' '' (split_ws [] cs) = rstrip_ws (sub_ws_runs '' '' True cs)"
      using Cons.IH [of "[]"] by (simp add: strip_sub_ws_runs_False)
    have e: "split_ws [] cs = [] \<longleftrightarrow> rstrip_ws (sub_ws_runs '' '' True cs) = []"
      using join_Nil_iff [OF split_ws_nonempty, of "'' ''" "[]" cs] j by simp
    show ?thesis
    proof (cases "w = []")
      case True
      with \<open>is_space c\<close> j show ?thesis
        using strip_sub_ws_runs_False [of "c # cs"] by simp
    next
      case False
      with \<open>is_space c\<close> j e show ?thesis
        by (simp add: join_Cons rstrip_ws_Cons space_is_space)
    qed
  next
    case False
    then show ?thesis
      using Cons.IH [of "w @ [c]"]
      by (simp add: strip_rstrip rstrip_ws_Cons)
  qed
qed

lemma simple_title_strip: "simple_title p = strip (spec_key p)"
  by (simp add: simple_title_def spec_key_def spec_normalized_title_def join_split_ws)

lemma char_classes [simp]:
  "is_space CHR '' ''" "\<not> is_space CHR ''A''" "\<not> is_space CHR ''a''"
  "\<not> is_space CHR ''B''" "\<not> is_space CHR ''b''" "\<not> is_space CHR ''!''"
  "is_word CHR ''a''" "is_word CHR ''b''" "\<not> is_word CHR ''!''" "\<not> is_word CHR '' ''"
  "lower_char CHR ''A'' = CHR ''a''" "lower_char CHR ''B'' = CHR ''b''"
  "lower_char CHR ''a'' = CHR ''a''"
  "lower_char CHR '' '' = CHR '' ''" "lower_char CHR ''!'' = CHR ''!''"
  by (simp_all add: is_space_def is_word_def lower_char_def char_of_def bit_Suc_0_iff)

lemma spec_key_examples:
  "spec_key (paper_of ''A'' y u) = ''a''"
  "spec_key (paper_of ''A !'' y u) = ''a ''"
  "spec_key (paper_of ''B'' y u) = ''b''"
  "spec_key (paper_of ''a'' y u) = ''a''"
  by (simp_all add: spec_key_def spec_normalized_title_def lower_def)

lemma simple_title_examples:
  "simple_title (paper_of ''A'' y u) = ''a''"
  "simple_title (paper_of ''A !'' y u) = ''a''"
  "simple_title (paper_of ''B'' y u) = ''b''"
  "simple_title (paper_of ''a'' y u) = ''a''"
  by (simp_all add: simple_title_def lower_def)

text \<open>
  \<^bold>\<open>Claim C3\<close> normalises a title by lower-casing, deleting what is neither a word
  character nor whitespace, and collapsing whitespace runs to single spaces. The code also
  drops leading and trailing whitespace (\<^verbatim>\<open>' '.join(s.split())\<close>): the titles "A" and
  "A !" have the different normal forms "a" and "a " in the claim's wording, so the
  claim keeps both papers, and the code discards the second.
\<close>

theorem remove_duplicates_spec_key_counterexample:
  "spec_key (paper_of ''A'' 2024 None) \<noteq> spec_key (paper_of ''A !'' 2023 None)
   \<and> first_of_key spec_key [paper_of ''A'' 2024 None, paper_of ''A !'' 2023 None]
       = [paper_of ''A'' 2024 None, paper_of ''A !'' 2023 None]
   \<and> remove_duplicates [paper_of ''A'' 2024 None, paper_of ''A !'' 2023 None]
       = [paper_of ''A'' 2024 None]"
  by (simp add: spec_key_examples simple_title_examples first_of_key_def remove_duplicates_def
      upt_conv_Cons numeral_2_eq_2)

text \<open>
  \<^bold>\<open>Claim C3, amended.\<close> For every list of papers, \<open>remove_duplicates\<close> keeps exactly the
  papers that are the first of their normalised title, in the order of the list, where a
  title is normalised by lower-casing, deleting the characters that are neither word
  characters nor whitespace, collapsing whitespace runs to single spaces and stripping
  leading and trailing whitespace.
\<close>

theorem remove_duplicates_keeps_first:
  "remove_duplicates ps = first_of_key (\<lambda>p. strip (spec_key p)) ps"
proof -
  have "simple_title = (\<lambda>p. strip (spec_key p))"
    by (rule ext) (rule simple_title_strip)
  then show ?thesis
    using remove_duplicates_first [of ps] by simp
qed

theorem remove_duplicates_keeps_first_witness:
  "remove_duplicates [paper_of ''A'' 2024 None, paper_of ''A !'' 2023 None,
                      paper_of ''B'' 2022 None, paper_of ''a'' 2021 None]
     = [paper_of ''A'' 2024 None, paper_of ''B'' 2022 None]"
  using remove_duplicates_keeps_first
    [of "[paper_of ''A'' 2024 None, paper_of ''A !'' 2023 None,
          paper_of ''B'' 2022 None, paper_of ''a'' 2021 None]"]
  by (simp add: first_of_key_def simple_title_strip [symmetric] simple_title_examples
      upt_conv_Cons numeral_eq_Suc)

subsection \<open>Sorting and truncation\<close>

lemma sort_newest_first_sorted:
  "sorted_wrt (\<lambda>a b. b \<le> a) (map year_key (sort_newest_first ps))"
proof -
  have "sorted (map (\<lambda>p. - year_key p) (sort_newest_first ps))"
    unfolding sort_newest_first_def by (rule sorted_sort_key)
  then show ?thesis
    by (simp add: sorted_wrt_map)
qed

lemma sort_newest_first_stable:
  "filter (\<lambda>p. year_key p = k) (sort_newest_first ps) = filter (\<lambda>p. year_key p = k) ps"
  using sort_key_stable [of "\<lambda>p. - year_key p" "- k" ps]
  by (simp add: sort_newest_first_def)

lemma slice_to_take: "0 \<le> n \<Longrightarrow> slice_to n xs = take (nat n) xs"
  by (simp add: slice_to_def)

text \<open>
  \<^bold>\<open>Claim C4.\<close> With a cap \<open>max_papers\<close> that is not negative, the list that
  \<open>MultiSourceSearcher.search_papers\<close> returns is sorted by year in descending order, the
  papers of each year are an initial part of the papers of that year in the deduplicated
  list, in the same order, and the list has at most \<open>max_papers\<close> papers.
\<close>

theorem multi_search_sorted_stable_bounded:
  assumes "0 \<le> max_papers cfg"
  shows "\<exists>ps. multi_search_papers env cfg q = Inr ps
     \<and> sorted_wrt (\<lambda>a b. b \<le> a) (map year_key ps)
     \<and> (\<forall>k. prefix (filter (\<lambda>p. year_key p = k) ps)
                   (filter (\<lambda>p. year_key p = k) (remove_duplicates (all_papers env cfg q))))
     \<and> int (length ps) \<le> max_papers cfg"
proof -
  let ?u = "remove_duplicates (all_papers env cfg q)"
  let ?ps = "take (nat (max_papers cfg)) (sort_newest_first ?u)"
  have eq: "multi_search_papers env cfg q = Inr ?ps"
    using assms by (simp add: multi_search_papers_def slice_to_take)
  have s: "sorted_wrt (\<lambda>a b. b \<le> a) (map year_key ?ps)"
    using sort_newest_first_sorted [of ?u]
    by (simp add: sorted_wrt_map sorted_wrt_take)
  have st: "prefix (filter (\<lambda>p. year_key p = k) ?ps) (filter (\<lambda>p. year_key p = k) ?u)" for k
    using filter_mono_prefix [OF take_is_prefix, of "\<lambda>p. year_key p = k"
        "nat (max_papers cfg)" "sort_newest_first ?u"]
    by (simp add: sort_newest_first_stable)
  have l: "int (length ?ps) \<le> max_papers cfg"
    using assms by simp
  show ?thesis using eq s st l by blast
qed

theorem multi_search_sorted_stable_bounded_witness:
  "0 \<le> max_papers \<lparr>max_papers = 4, min_year = 2020\<rparr>
   \<and> (\<exists>ps. multi_search_papers
          (providers_of [entry_of ''Old'' ''2023-05-01'' ''http://arxiv.org/abs/2305.00001v1'',
                         entry_of ''New'' ''2024-05-01'' ''http://arxiv.org/abs/2405.00001v1'']
                        [item_of ''new'' (YearInt 2025) ''http://x/b.pdf'',
                         item_of ''C'' (YearInt 2024) ''http://x/c.pdf''])
          \<lparr>max_papers = 4, min_year = 2020\<rparr> ''q'' = Inr ps
        \<and> sorted_wrt (\<lambda>a b. b \<le> a) (map year_key ps)
        \<and> (\<forall>k. prefix (filter (\<lambda>p. year_key p = k) ps)
              (filter (\<lambda>p. year_key p = k)
                (remove_duplicates (all_papers
                   (providers_of [entry_of ''Old'' ''2023-05-01'' ''http://arxiv.org/abs/2305.00001v1'',
                                  entry_of ''New'' ''2024-05-01'' ''http://arxiv.org/abs/2405.00001v1'']
                                 [item_of ''new'' (YearInt 2025) ''http://x/b.pdf'',
                                  item_of ''C'' (YearInt 2024) ''http://x/c.pdf''])
                   \<lparr>max_papers = 4, min_year = 2020\<rparr> ''q''))))
        \<and> int (length ps) \<le> 4)"
proof -
  have h: "0 \<le> max_papers \<lparr>max_papers = 4, min_year = 2020\<rparr>"
    by simp
  from multi_search_sorted_stable_bounded [OF h] h show ?thesis
    by simp
qed

section \<open>Exceptions of the public operations\<close>




end
